theory Spec2Isabelle
  imports Main
begin

section \<open>Tab lifecycle of \<open>extensions::TabHelper\<close>\<close>

text \<open>
  The development embeds the methods of \<open>TabHelper\<close> that bind a tab record to its content
  surface. A \<open>content::WebContents*\<close> is a surface identity, a \<open>Browser*\<close> a window identity;
  a pointer that may be null is an \<open>option\<close>. The C++ members \<open>index_\<close>, \<open>pinned_\<close>,
  \<open>is_placeholder_\<close>, \<open>window_closing_\<close> and \<open>browser_\<close> are the record fields \<open>m_index\<close>,
  \<open>m_pinned\<close>, \<open>m_is_placeholder\<close>, \<open>m_window_closing\<close> and \<open>m_browser\<close> (a name may not end in
  an underscore here).

  Every method takes the world and \<open>this\<close> (the surface whose helper runs the method) and
  returns the new world. A dereference of a null pointer and a failed \<open>CHECK\<close>/\<open>DCHECK\<close> are
  error values.

  The collaborators (tab strip, window, guest view, tab manager, task runner) are outside
  the file. What a method asks of them is applied to the small state they expose to the
  helper (strip contents, navigation entries, the detached-state permission) and written to
  the \<open>trace\<close>, in program order. What a collaborator does in reaction (notifying its
  observers, completing an attachment, tearing a surface down) is a transition of its own:
  the observer callbacks \<open>TabReplacedAt\<close>, \<open>TabDetachedAt\<close>, \<open>TabPinnedStateChanged\<close>,
  \<open>DidAttach\<close> and \<open>WillCloseWindow\<close> are methods that the collaborator calls, and a
  theorem about a method speaks of the method's own statements, up to the requests it
  leaves in the trace.
\<close>

type_synonym surface = nat
type_synonym browser = nat

text \<open>\<open>TabStripModel::kNoTab\<close>.\<close>

definition kNoTab :: int where
  "kNoTab = - 1"

record TabHelper =
  m_index :: int
  m_pinned :: bool
  m_is_placeholder :: bool
  m_window_closing :: bool
  m_browser :: "browser option"

text \<open>
  Modelled from the spec: \<open>brave::TabViewGuest\<close> (brave/browser/guest_view/tab_view) is not
  among the files. The helper reads \<open>attached()\<close>, \<open>guest_instance_id()\<close> and
  \<open>attach_params()\<close> and sets the permission to run while detached
  (\<open>SetForegroundEligibleWhileDetached\<close> in the spec's words).
\<close>

record TabViewGuest =
  attached :: bool
  can_run_in_detached_state :: bool
  guest_instance_id :: int
  attach_params :: "(string \<times> string) list"

record Browser =
  session_id :: int
  tab_strip :: "surface list"

datatype error = NullTabHelper | NullBrowser | DCheckFailed | StripIndexOutOfRange

text \<open>A posted task: \<open>base::Bind(TabHelper::DestroyTab, base::Unretained(web_contents()))\<close>.\<close>

datatype task = DestroyTabTask surface

text \<open>
  Modelled from the spec: the surface, guest, window and strip classes are not among the
  files. An operation that only instructs a collaborator is an event of the trace:
  \<open>WebContents::UserGestureDone\<close> (resume foreground activity) and \<open>WasHidden\<close> (\<open>Hide()\<close>
  of a surface), \<open>TabViewGuest::Load\<close> (\<open>BeginLoad()\<close>), \<open>Destroy\<close>, \<open>SetAttachParams\<close>,
  \<open>TabIdChanged\<close>, \<open>DetachGuest\<close> and \<open>AttachGuest\<close>, \<open>NativeWindow::RequestToClosePage\<close>,
  \<open>Deactivate\<close> and \<open>Hide\<close>, the registration and removal of the helper as observer of
  a strip and of a window, and the strip's replace and pin requests.
\<close>

datatype effect =
    UserGestureDone surface
  | Load surface
  | GuestDestroy surface
  | RequestToClosePage browser
  | Deactivate browser
  | Hide browser
  | WasHidden surface
  | SetAttachParams surface "(string \<times> string) list"
  | TabIdChanged surface
  | GuestDetachGuest surface
  | GuestAttachGuest surface int
  | StripAddObserver browser surface
  | StripRemoveObserver browser surface
  | WindowAddObserver browser surface
  | WindowRemoveObserver browser surface
  | StripReplaced browser int surface surface
  | StripSetTabPinned browser int bool

record world =
  helpers :: "surface \<Rightarrow> TabHelper option"
  guests :: "surface \<Rightarrow> TabViewGuest"
  nav_entries :: "surface \<Rightarrow> string list"
  session_window :: "surface \<Rightarrow> int"
  discarded :: "surface \<Rightarrow> bool"
  browser_list :: "browser list"
  browsers :: "browser \<Rightarrow> Browser"
  last_active :: "browser option"
  trying_to_quit :: bool
  next_contents :: surface
  posted :: "task list"
  trace :: "effect list"

subsection \<open>Collaborator operations\<close>

definition emit :: "world \<Rightarrow> effect \<Rightarrow> world" where
  "emit w e = w\<lparr>trace := trace w @ [e]\<rparr>"

text \<open>
  Modelled from the spec: \<open>TabHelper::FromWebContents\<close> is declared in the header, which is
  not among the files; it is the helper stored with a surface, or null.
\<close>

definition FromWebContents :: "world \<Rightarrow> surface \<Rightarrow> TabHelper option" where
  "FromWebContents w c = helpers w c"

text \<open>
  Modelled from the spec: \<open>BrowserList\<close> is not among the files;
  \<open>BrowserList::GetInstance()->GetLastActive()\<close> is the registry's
  \<open>LastActive() -> Window|none\<close>.
\<close>

definition GetLastActive :: "world \<Rightarrow> browser option" where
  "GetLastActive w = last_active w"

text \<open>
  Modelled from the spec: \<open>browser_shutdown::IsTryingToQuit()\<close> is not among the files; it
  tells whether the process is already shutting down.
\<close>

definition IsTryingToQuit :: "world \<Rightarrow> bool" where
  "IsTryingToQuit w = trying_to_quit w"

text \<open>
  Modelled from the spec: \<open>TabViewGuest::SetCanRunInDetachedState\<close> is not among the files;
  it stores the permission.
\<close>

definition SetCanRunInDetachedState :: "world \<Rightarrow> surface \<Rightarrow> bool \<Rightarrow> world" where
  "SetCanRunInDetachedState w c b =
     w\<lparr>guests := (guests w)(c := (guests w c)\<lparr>can_run_in_detached_state := b\<rparr>)\<rparr>"

subsection \<open>Placeholder flag and reconciliation\<close>

text \<open>
  \<^verbatim>\<open>
  void TabHelper::SetPlaceholder(bool is_placeholder) {
    is_placeholder_  = is_placeholder;
    if (!is_placeholder_)
      guest()->SetCanRunInDetachedState(true);
  }
  \<close>
\<close>

definition SetPlaceholder :: "world \<Rightarrow> surface \<Rightarrow> bool \<Rightarrow> error + world" where
  "SetPlaceholder w this is_placeholder =
     (case helpers w this of
        None \<Rightarrow> Inl NullTabHelper
      | Some h \<Rightarrow>
          let w1 = w\<lparr>helpers := (helpers w)(this \<mapsto> h\<lparr>m_is_placeholder := is_placeholder\<rparr>)\<rparr>
          in if \<not> is_placeholder then Inr (SetCanRunInDetachedState w1 this True)
             else Inr w1)"

text \<open>
  \<^verbatim>\<open>
  void TabHelper::MaybeAttachOrCreatePinnedTab() {
    if (window_closing_ || !is_pinned() || !is_placeholder() ||
        !guest()->attached() ||
        browser_ != BrowserList::GetInstance()->GetLastActive())
      return;
    SetPlaceholder(false);
    web_contents()->UserGestureDone();
    guest()->Load();
  }
  \<close>
\<close>

definition MaybeAttachOrCreatePinnedTab :: "world \<Rightarrow> surface \<Rightarrow> error + world" where
  "MaybeAttachOrCreatePinnedTab w this =
     (case helpers w this of
        None \<Rightarrow> Inl NullTabHelper
      | Some h \<Rightarrow>
          if m_window_closing h \<or> \<not> m_pinned h \<or> \<not> m_is_placeholder h \<or>
             \<not> attached (guests w this) \<or> m_browser h \<noteq> GetLastActive w
          then Inr w
          else (case SetPlaceholder w this False of
                  Inl e \<Rightarrow> Inl e
                | Inr w1 \<Rightarrow> Inr (emit (emit w1 (UserGestureDone this)) (Load this))))"

subsection \<open>Window close requests, attach notification, posted destruction\<close>

text \<open>
  \<^verbatim>\<open>
  void TabHelper::MaybeRequestWindowClose() {
    if (window_closing_ && browser()) {
      auto window = static_cast<atom::NativeWindow*>(browser_->window());
      window->RequestToClosePage();
    }
  }
  \<close>
\<close>

definition MaybeRequestWindowClose :: "world \<Rightarrow> surface \<Rightarrow> error + world" where
  "MaybeRequestWindowClose w this =
     (case helpers w this of
        None \<Rightarrow> Inl NullTabHelper
      | Some h \<Rightarrow>
          (case m_browser h of
             Some b \<Rightarrow> if m_window_closing h then Inr (emit w (RequestToClosePage b)) else Inr w
           | None \<Rightarrow> Inr w))"

text \<open>
  \<open>TabHelper::IsDiscarded\<close> returns \<open>GetTabManager()->IsTabDiscarded(web_contents())\<close>.
  Modelled from the spec: \<open>TabManager\<close> is not among the files; it knows which surfaces
  are discarded.
\<close>

definition IsDiscarded :: "world \<Rightarrow> surface \<Rightarrow> bool" where
  "IsDiscarded w this = discarded w this"

text \<open>
  Modelled from the spec: the task runner is not among the files;
  \<open>base::ThreadTaskRunnerHandle::Get()->PostTask\<close> puts the task at the end of the queue, to
  run after the current callback has returned.
\<close>

definition PostTask :: "world \<Rightarrow> task \<Rightarrow> world" where
  "PostTask w t = w\<lparr>posted := posted w @ [t]\<rparr>"

text \<open>
  \<^verbatim>\<open>
  void TabHelper::DestroyTab(content::WebContents* tab) {
    auto guest = brave::TabViewGuest::FromWebContents(tab);
    DCHECK(guest);
    guest->Destroy(true);
  }
  \<close>
  Modelled from the spec: \<open>TabViewGuest::Destroy\<close> is not among the files; the destruction
  of the surface is the event \<open>GuestDestroy\<close>.
\<close>

definition DestroyTab :: "world \<Rightarrow> surface \<Rightarrow> world" where
  "DestroyTab w tab = emit w (GuestDestroy tab)"

fun run_task :: "task \<Rightarrow> world \<Rightarrow> world" where
  "run_task (DestroyTabTask tab) w = DestroyTab w tab"

text \<open>
  Modelled from the spec: the task runner takes the oldest posted task off the queue and
  runs it; a posted task cannot be cancelled.
\<close>

definition RunNextTask :: "world \<Rightarrow> world" where
  "RunNextTask w =
     (case posted w of
        [] \<Rightarrow> w
      | t # ts \<Rightarrow> run_task t (w\<lparr>posted := ts\<rparr>))"

text \<open>
  \<^verbatim>\<open>
  void TabHelper::DidAttach() {
    MaybeRequestWindowClose();
    if (is_placeholder()) {
      guest()->SetCanRunInDetachedState(false);
      if (!pinned_ && !IsDiscarded()) {
        base::ThreadTaskRunnerHandle::Get()->PostTask(FROM_HERE,
          base::Bind(TabHelper::DestroyTab, base::Unretained(web_contents())));
      } else {
        MaybeAttachOrCreatePinnedTab();
      }
    }
  }
  \<close>
\<close>

definition DidAttach :: "world \<Rightarrow> surface \<Rightarrow> error + world" where
  "DidAttach w this =
     (case MaybeRequestWindowClose w this of
        Inl e \<Rightarrow> Inl e
      | Inr w1 \<Rightarrow>
          (case helpers w1 this of
             None \<Rightarrow> Inl NullTabHelper
           | Some h \<Rightarrow>
               if m_is_placeholder h then
                 (let w2 = SetCanRunInDetachedState w1 this False
                  in if \<not> m_pinned h \<and> \<not> IsDiscarded w2 this
                     then Inr (PostTask w2 (DestroyTabTask this))
                     else MaybeAttachOrCreatePinnedTab w2 this)
               else Inr w1))"

text \<open>
  \<^verbatim>\<open>
  void TabHelper::WillCloseWindow(bool* prevent_default) {
    window_closing_ = false;
    if (browser() && is_pinned() && !is_placeholder() &&
        !browser_shutdown::IsTryingToQuit() &&
        BrowserList::GetInstance()->size() > 1) {
      // TODO(bridiver) - enable pinned tab transfer
      // *prevent_default = true;
      // window_closing_ = true;
      browser()->window()->Deactivate();
      browser()->window()->Hide();
    }
  }
  \<close>
  The out-parameter is passed in and returned.
\<close>

definition WillCloseWindow :: "world \<Rightarrow> surface \<Rightarrow> bool \<Rightarrow> error + (bool \<times> world)" where
  "WillCloseWindow w this prevent_default =
     (case helpers w this of
        None \<Rightarrow> Inl NullTabHelper
      | Some h \<Rightarrow>
          let w1 = w\<lparr>helpers := (helpers w)(this \<mapsto> h\<lparr>m_window_closing := False\<rparr>)\<rparr>
          in (case m_browser h of
                Some b \<Rightarrow>
                  if m_pinned h \<and> \<not> m_is_placeholder h \<and> \<not> IsTryingToQuit w1 \<and>
                     length (browser_list w1) > 1
                  then Inr (prevent_default, emit (emit w1 (Deactivate b)) (Hide b))
                  else Inr (prevent_default, w1)
              | None \<Rightarrow> Inr (prevent_default, w1)))"

text \<open>
  \<^verbatim>\<open>
  void TabHelper::OnBrowserRemoved(Browser* browser) {
    MaybeRequestWindowClose();
    if (browser_ != nullptr && browser_ == browser) {
      auto window = static_cast<atom::NativeWindow*>(browser_->window());
      window->RemoveObserver(this);
      browser_->tab_strip_model()->RemoveObserver(this);
      browser_ = nullptr;
      index_ = TabStripModel::kNoTab;
    }
  }
  \<close>
\<close>

definition OnBrowserRemoved :: "world \<Rightarrow> surface \<Rightarrow> browser option \<Rightarrow> error + world" where
  "OnBrowserRemoved w this browser =
     (case MaybeRequestWindowClose w this of
        Inl e \<Rightarrow> Inl e
      | Inr w1 \<Rightarrow>
          (case helpers w1 this of
             None \<Rightarrow> Inl NullTabHelper
           | Some h \<Rightarrow>
               (case m_browser h of
                  Some b \<Rightarrow>
                    if m_browser h = browser then
                      (let w2 = emit (emit w1 (WindowRemoveObserver b this)) (StripRemoveObserver b this)
                       in Inr (w2\<lparr>helpers := (helpers w2)(this \<mapsto> h\<lparr>m_browser := None, m_index := kNoTab\<rparr>)\<rparr>))
                    else Inr w1
                | None \<Rightarrow> Inr w1)))"

text \<open>
  \<^verbatim>\<open>
  void TabHelper::OnBrowserSetLastActive(Browser* browser) {
    MaybeRequestWindowClose();
    MaybeAttachOrCreatePinnedTab();
  }
  \<close>
\<close>

definition OnBrowserSetLastActive :: "world \<Rightarrow> surface \<Rightarrow> browser option \<Rightarrow> error + world" where
  "OnBrowserSetLastActive w this browser =
     (case MaybeRequestWindowClose w this of
        Inl e \<Rightarrow> Inl e
      | Inr w1 \<Rightarrow> MaybeAttachOrCreatePinnedTab w1 this)"

text \<open>
  \<^verbatim>\<open>
  void TabHelper::UpdateBrowser(Browser* browser) {
    browser_ = browser;
    browser_->tab_strip_model()->AddObserver(this);
    static_cast<atom::NativeWindow*>(browser_->window())->AddObserver(this);
  }
  \<close>
\<close>

definition UpdateBrowser :: "world \<Rightarrow> surface \<Rightarrow> browser option \<Rightarrow> error + world" where
  "UpdateBrowser w this browser =
     (case helpers w this of
        None \<Rightarrow> Inl NullTabHelper
      | Some h \<Rightarrow>
          (case browser of
             None \<Rightarrow> Inl NullBrowser
           | Some b \<Rightarrow>
               let w1 = w\<lparr>helpers := (helpers w)(this \<mapsto> h\<lparr>m_browser := Some b\<rparr>)\<rparr>
               in Inr (emit (emit w1 (StripAddObserver b this)) (WindowAddObserver b this))))"

subsection \<open>Tab strips\<close>

text \<open>
  Modelled from the spec: \<open>TabStripModel\<close> is not among the files.
  \<open>GetIndexOfWebContents\<close> is \<open>Window.IndexOf(surface) -> slot|none\<close>: the position of a
  surface in the strip, or \<open>kNoTab\<close>.
\<close>

fun GetIndexOfWebContents :: "surface list \<Rightarrow> surface \<Rightarrow> int" where
  "GetIndexOfWebContents [] c = kNoTab"
| "GetIndexOfWebContents (x # xs) c =
     (if x = c then 0
      else (let i = GetIndexOfWebContents xs c in if i = kNoTab then kNoTab else i + 1))"

text \<open>Modelled from the spec: \<open>TabStripModel::ContainsIndex\<close>, the positions of the strip.\<close>

definition ContainsIndex :: "surface list \<Rightarrow> int \<Rightarrow> bool" where
  "ContainsIndex strip i = (0 \<le> i \<and> i < int (length strip))"

text \<open>
  Modelled from the spec: \<open>TabStripModel::ReplaceWebContentsAt\<close> is
  \<open>Window.ReplaceAt(slot, surface)\<close>. It needs a position of the strip, puts the new
  surface in the slot and triggers the replace notification to the strip's observers
  (\<open>StripReplaced b i old new\<close>).
\<close>

definition ReplaceWebContentsAt :: "world \<Rightarrow> browser \<Rightarrow> int \<Rightarrow> surface \<Rightarrow> error + world" where
  "ReplaceWebContentsAt w b i new_contents =
     (let strip = tab_strip (browsers w b)
      in if ContainsIndex strip i then
           Inr (emit
                  (w\<lparr>browsers := (browsers w)
                        (b := (browsers w b)\<lparr>tab_strip := strip[nat i := new_contents]\<rparr>)\<rparr>)
                  (StripReplaced b i (strip ! nat i) new_contents))
         else Inl StripIndexOutOfRange)"

text \<open>
  Modelled from the spec: \<open>TabStripModel::SetTabPinned\<close> needs a position of the strip;
  the strip's own pin state stays with the strip, the request is the event
  \<open>StripSetTabPinned\<close>.
\<close>

definition SetTabPinned :: "world \<Rightarrow> browser \<Rightarrow> int \<Rightarrow> bool \<Rightarrow> error + world" where
  "SetTabPinned w b i pinned =
     (if ContainsIndex (tab_strip (browsers w b)) i
      then Inr (emit w (StripSetTabPinned b i pinned))
      else Inl StripIndexOutOfRange)"

text \<open>
  \<^verbatim>\<open>
  int TabHelper::get_tab_strip_index() const {
    if (browser())
      return browser()->tab_strip_model()->GetIndexOfWebContents(web_contents());
    return TabStripModel::kNoTab;
  }
  \<close>
  A const method: it takes the helper and the surface it belongs to.
\<close>

definition get_tab_strip_index :: "world \<Rightarrow> TabHelper \<Rightarrow> surface \<Rightarrow> int" where
  "get_tab_strip_index w h this =
     (case m_browser h of
        Some b \<Rightarrow> GetIndexOfWebContents (tab_strip (browsers w b)) this
      | None \<Rightarrow> kNoTab)"

text \<open>
  \<open>TabHelper::window_id\<close> returns
  \<open>SessionTabHelper::FromWebContents(web_contents())->window_id().id()\<close>.
  Modelled from the spec: \<open>SessionTabHelper\<close> is not among the files; it keeps a window id
  per surface.
\<close>

definition window_id :: "world \<Rightarrow> surface \<Rightarrow> int" where
  "window_id w this = session_window w this"

text \<open>
  Modelled from the spec: \<open>TabContentsIterator\<close> is not among the files; it visits every
  surface of every strip, window by window in the registry's order.
\<close>

definition TabContentsIterator :: "world \<Rightarrow> surface list" where
  "TabContentsIterator w = concat (map (\<lambda>b. tab_strip (browsers w b)) (browser_list w))"

text \<open>
  \<^verbatim>\<open>
  int TabHelper::GetTabStripIndex(int window_id, int index) {
    for (TabContentsIterator it; !it.done(); it.Next()) {
      auto tab_helper = FromWebContents(*it);
      if (tab_helper && tab_helper->get_index() == index &&
          tab_helper->window_id() == window_id)
        return tab_helper->get_tab_strip_index();
    }
    return TabStripModel::kNoTab;
  }
  \<close>
\<close>

fun GetTabStripIndex_from :: "world \<Rightarrow> int \<Rightarrow> int \<Rightarrow> surface list \<Rightarrow> int" where
  "GetTabStripIndex_from w wid i [] = kNoTab"
| "GetTabStripIndex_from w wid i (c # cs) =
     (case FromWebContents w c of
        Some tab_helper \<Rightarrow>
          if m_index tab_helper = i \<and> window_id w c = wid
          then get_tab_strip_index w tab_helper c
          else GetTabStripIndex_from w wid i cs
      | None \<Rightarrow> GetTabStripIndex_from w wid i cs)"

definition GetTabStripIndex :: "world \<Rightarrow> int \<Rightarrow> int \<Rightarrow> int" where
  "GetTabStripIndex w wid i = GetTabStripIndex_from w wid i (TabContentsIterator w)"

subsection \<open>Attach and detach\<close>

text \<open>
  \<^verbatim>\<open>
  bool TabHelper::AttachGuest(int window_id, int index) {
    DCHECK(!guest()->attached());
    for (auto* browser : *BrowserList::GetInstance()) {
      if (browser->session_id().id() == window_id) {
        index_ = index;
        browser->tab_strip_model()->ReplaceWebContentsAt(
            GetTabStripIndex(window_id, index_), web_contents());
        return true;
      }
    }
    return false;
  }
  \<close>
\<close>

fun AttachGuest_from ::
  "world \<Rightarrow> surface \<Rightarrow> TabHelper \<Rightarrow> int \<Rightarrow> int \<Rightarrow> browser list \<Rightarrow> error + (bool \<times> world)" where
  "AttachGuest_from w this h wid i [] = Inr (False, w)"
| "AttachGuest_from w this h wid i (b # bs) =
     (if session_id (browsers w b) = wid then
        (let w1 = w\<lparr>helpers := (helpers w)(this \<mapsto> h\<lparr>m_index := i\<rparr>)\<rparr>
         in case ReplaceWebContentsAt w1 b (GetTabStripIndex w1 wid i) this of
              Inl e \<Rightarrow> Inl e
            | Inr w2 \<Rightarrow> Inr (True, w2))
      else AttachGuest_from w this h wid i bs)"

definition AttachGuest :: "world \<Rightarrow> surface \<Rightarrow> int \<Rightarrow> int \<Rightarrow> error + (bool \<times> world)" where
  "AttachGuest w this wid i =
     (case helpers w this of
        None \<Rightarrow> Inl NullTabHelper
      | Some h \<Rightarrow>
          if attached (guests w this) then Inl DCheckFailed
          else AttachGuest_from w this h wid i (browser_list w))"

text \<open>
  The constructor: \<open>index_(TabStripModel::kNoTab), pinned_(false), is_placeholder_(false),
  window_closing_(false), browser_(nullptr)\<close>, and \<open>SetWindowId(-1)\<close>.
\<close>

definition NewTabHelper :: TabHelper where
  "NewTabHelper =
     \<lparr>m_index = kNoTab, m_pinned = False, m_is_placeholder = False,
      m_window_closing = False, m_browser = None\<rparr>"




subsection \<open>Strip observer callbacks\<close>

text \<open>
  \<^verbatim>\<open>
  void TabHelper::TabReplacedAt(TabStripModel* tab_strip_model,
                                content::WebContents* old_contents,
                                content::WebContents* new_contents, int index) {
    if (old_contents != web_contents())
      return;
    auto old_browser = browser_;
    brave::TabViewGuest* old_guest = guest();
    int guest_instance_id = old_guest->guest_instance_id();
    auto new_helper = FromWebContents(new_contents);
    new_helper->index_ = index_;
    new_helper->pinned_ = pinned_;
    OnBrowserRemoved(old_browser);
    new_helper->UpdateBrowser(old_browser);
    brave::TabViewGuest* new_guest = new_helper->guest();
    old_contents->WasHidden();
    const base::DictionaryValue* attach_params =
        old_guest->attach_params()->CreateDeepCopy().release();
    new_guest->SetAttachParams(*attach_params);
    new_guest->TabIdChanged();
    old_guest->DetachGuest();
    new_guest->AttachGuest(new_guest->guest_instance_id());
  }
  \<close>
  Modelled from the spec: \<open>TabViewGuest::SetAttachParams\<close>, \<open>TabIdChanged\<close>,
  \<open>DetachGuest\<close> and \<open>AttachGuest\<close> are not among the files. \<open>SetAttachParams\<close> stores the
  carried-forward parameters; the other three are instructions to the backing resource,
  recorded as events.
\<close>

definition Guest_SetAttachParams :: "world \<Rightarrow> surface \<Rightarrow> (string \<times> string) list \<Rightarrow> world" where
  "Guest_SetAttachParams w c params =
     emit (w\<lparr>guests := (guests w)(c := (guests w c)\<lparr>attach_params := params\<rparr>)\<rparr>)
       (SetAttachParams c params)"

definition TabReplacedAt :: "world \<Rightarrow> surface \<Rightarrow> surface \<Rightarrow> surface \<Rightarrow> int \<Rightarrow> error + world" where
  "TabReplacedAt w this old_contents new_contents i =
     (case helpers w this of
        None \<Rightarrow> Inl NullTabHelper
      | Some h \<Rightarrow>
          if old_contents \<noteq> this then Inr w
          else
            (let old_browser = m_browser h
             in case FromWebContents w new_contents of
                  None \<Rightarrow> Inl NullTabHelper
                | Some new_helper \<Rightarrow>
                    (let w1 = w\<lparr>helpers := (helpers w)
                                (new_contents \<mapsto> new_helper\<lparr>m_index := m_index h, m_pinned := m_pinned h\<rparr>)\<rparr>
                     in case OnBrowserRemoved w1 this old_browser of
                          Inl e \<Rightarrow> Inl e
                        | Inr w2 \<Rightarrow>
                            (case UpdateBrowser w2 new_contents old_browser of
                               Inl e \<Rightarrow> Inl e
                             | Inr w3 \<Rightarrow>
                                 (let w4 = emit w3 (WasHidden old_contents);
                                      params = attach_params (guests w4 this);
                                      w5 = Guest_SetAttachParams w4 new_contents params;
                                      w6 = emit w5 (TabIdChanged new_contents);
                                      w7 = emit w6 (GuestDetachGuest this);
                                      w8 = emit w7 (GuestAttachGuest new_contents
                                                      (guest_instance_id (guests w7 new_contents)))
                                  in Inr w8)))))"

text \<open>
  \<^verbatim>\<open>
  void TabHelper::TabDetachedAt(content::WebContents* contents, int index) {
    if (contents != web_contents())
      return;
    OnBrowserRemoved(browser_);
  }
  \<close>
\<close>

definition TabDetachedAt :: "world \<Rightarrow> surface \<Rightarrow> surface \<Rightarrow> int \<Rightarrow> error + world" where
  "TabDetachedAt w this contents i =
     (case helpers w this of
        None \<Rightarrow> Inl NullTabHelper
      | Some h \<Rightarrow>
          if contents \<noteq> this then Inr w
          else OnBrowserRemoved w this (m_browser h))"

text \<open>
  \<^verbatim>\<open>
  void TabHelper::TabPinnedStateChanged(TabStripModel* tab_strip_model,
                                        content::WebContents* contents, int index) {
    if (contents != web_contents())
      return;
    MaybeAttachOrCreatePinnedTab();
  }
  \<close>
\<close>

definition TabPinnedStateChanged :: "world \<Rightarrow> surface \<Rightarrow> surface \<Rightarrow> int \<Rightarrow> error + world" where
  "TabPinnedStateChanged w this contents i =
     (case helpers w this of
        None \<Rightarrow> Inl NullTabHelper
      | Some h \<Rightarrow>
          if contents \<noteq> this then Inr w
          else MaybeAttachOrCreatePinnedTab w this)"

subsection \<open>Pinning\<close>

text \<open>
  \<^verbatim>\<open>
  void TabHelper::SetPinned(bool pinned) {
    if (pinned == pinned_)
      return;
    pinned_ = pinned;
    if (browser()) {
      browser()->tab_strip_model()->SetTabPinned(get_tab_strip_index(), pinned);
    }
    if (pinned_) {
      SetPlaceholder(true);
    } else {
      SetPlaceholder(false);
    }
  }
  \<close>
\<close>

definition SetPinned :: "world \<Rightarrow> surface \<Rightarrow> bool \<Rightarrow> error + world" where
  "SetPinned w this pinned =
     (case helpers w this of
        None \<Rightarrow> Inl NullTabHelper
      | Some h \<Rightarrow>
          if pinned = m_pinned h then Inr w
          else
            (let h1 = h\<lparr>m_pinned := pinned\<rparr>;
                 w1 = w\<lparr>helpers := (helpers w)(this \<mapsto> h1)\<rparr>
             in case (case m_browser h1 of
                        Some b \<Rightarrow> SetTabPinned w1 b (get_tab_strip_index w1 h1 this) pinned
                      | None \<Rightarrow> Inr w1) of
                  Inl e \<Rightarrow> Inl e
                | Inr w2 \<Rightarrow>
                    if m_pinned h1 then SetPlaceholder w2 this True
                    else SetPlaceholder w2 this False))"

subsection \<open>Sequencing and observations\<close>

text \<open>Run a second step on the result of a first one; an error ends the run.\<close>

definition and_then :: "error + world \<Rightarrow> (world \<Rightarrow> error + world) \<Rightarrow> error + world" where
  "and_then r f = (case r of Inl e \<Rightarrow> Inl e | Inr w \<Rightarrow> f w)"

text \<open>How often an event was issued so far.\<close>

definition issued :: "world \<Rightarrow> effect \<Rightarrow> nat" where
  "issued w e = count_list (trace w) e"

text \<open>The five preconditions of reconciliation, in the spec's words.\<close>

definition may_promote :: "world \<Rightarrow> TabHelper \<Rightarrow> surface \<Rightarrow> bool" where
  "may_promote w h this =
     (m_pinned h \<and> m_is_placeholder h \<and> attached (guests w this) \<and>
      \<not> m_window_closing h \<and> m_browser h = GetLastActive w)"

text \<open>The protected state of \<open>WillCloseWindow\<close>, in the spec's words.\<close>

definition close_protected :: "world \<Rightarrow> TabHelper \<Rightarrow> bool" where
  "close_protected w h =
     (m_browser h \<noteq> None \<and> m_pinned h \<and> \<not> m_is_placeholder h \<and>
      \<not> IsTryingToQuit w \<and> length (browser_list w) > 1)"

subsection \<open>Example worlds\<close>

definition idle_guest :: TabViewGuest where
  "idle_guest =
     \<lparr>attached = False, can_run_in_detached_state = False, guest_instance_id = 0,
      attach_params = []\<rparr>"

definition live_guest :: TabViewGuest where
  "live_guest =
     \<lparr>attached = True, can_run_in_detached_state = False, guest_instance_id = 7,
      attach_params = [(''partition'', ''persist:default'')]\<rparr>"

text \<open>No window, no surface.\<close>

definition empty_world :: world where
  "empty_world =
     \<lparr>helpers = (\<lambda>c. None), guests = (\<lambda>c. idle_guest), nav_entries = (\<lambda>c. []),
      session_window = (\<lambda>c. - 1), discarded = (\<lambda>c. False), browser_list = [],
      browsers = (\<lambda>b. \<lparr>session_id = - 1, tab_strip = []\<rparr>), last_active = None,
      trying_to_quit = False, next_contents = 0, posted = [], trace = []\<rparr>"

text \<open>
  Two windows, 1 and 2. Window 1 holds surface 10 at slot 0, a pinned placeholder whose
  guest is attached; window 2 holds surface 20, an ordinary tab. The argument is the
  last-active window.
\<close>

definition pinned_placeholder :: TabHelper where
  "pinned_placeholder =
     \<lparr>m_index = 0, m_pinned = True, m_is_placeholder = True, m_window_closing = False,
      m_browser = Some 1\<rparr>"

definition plain_tab :: TabHelper where
  "plain_tab =
     \<lparr>m_index = 0, m_pinned = False, m_is_placeholder = False, m_window_closing = False,
      m_browser = Some 2\<rparr>"

definition two_windows :: "browser option \<Rightarrow> world" where
  "two_windows la =
     empty_world
       \<lparr>helpers := (\<lambda>c. if c = 10 then Some pinned_placeholder
                         else if c = 20 then Some plain_tab else None),
        guests := (\<lambda>c. if c = 10 \<or> c = 20 then live_guest else idle_guest),
        nav_entries := (\<lambda>c. if c = 20 then [''https://example.org/''] else []),
        session_window := (\<lambda>c. if c = 10 then 1 else if c = 20 then 2 else - 1),
        browser_list := [1, 2],
        browsers := (\<lambda>b. if b = 1 then \<lparr>session_id = 1, tab_strip = [10]\<rparr>
                          else if b = 2 then \<lparr>session_id = 2, tab_strip = [20]\<rparr>
                          else \<lparr>session_id = - 1, tab_strip = []\<rparr>),
        last_active := la,
        next_contents := 21\<rparr>"

text \<open>Scenario B after reconciliation: surface 10 promoted in window 1.\<close>

definition promoted_world :: world where
  "promoted_world =
     (two_windows (Some 1))
       \<lparr>helpers := (helpers (two_windows (Some 1)))
          (10 \<mapsto> pinned_placeholder\<lparr>m_is_placeholder := False\<rparr>),
        guests := (guests (two_windows (Some 1)))
          (10 := live_guest\<lparr>can_run_in_detached_state := True\<rparr>),
        trace := [UserGestureDone 10, Load 10]\<rparr>"

text \<open>
  One window holding surface 10, the unpinned placeholder left behind by a tab move.
\<close>

definition transient_placeholder :: TabHelper where
  "transient_placeholder =
     \<lparr>m_index = 0, m_pinned = False, m_is_placeholder = True, m_window_closing = False,
      m_browser = Some 1\<rparr>"

definition move_world :: world where
  "move_world =
     empty_world
       \<lparr>helpers := (\<lambda>c. if c = 10 then Some transient_placeholder else None),
        guests := (\<lambda>c. if c = 10 then live_guest else idle_guest),
        session_window := (\<lambda>c. if c = 10 then 1 else - 1),
        browser_list := [1],
        browsers := (\<lambda>b. if b = 1 then \<lparr>session_id = 1, tab_strip = [10]\<rparr>
                          else \<lparr>session_id = - 1, tab_strip = []\<rparr>),
        last_active := Some 1,
        next_contents := 11\<rparr>"

text \<open>The same world after \<open>DidAttach\<close> posted the destruction of surface 10.\<close>

definition posted_world :: world where
  "posted_world = move_world\<lparr>posted := [DestroyTabTask 10]\<rparr>"

text \<open>Then the tab is pinned, with the destruction still in the queue.\<close>

definition pinned_world :: world where
  "pinned_world =
     posted_world
       \<lparr>helpers := (helpers posted_world)(10 \<mapsto> transient_placeholder\<lparr>m_pinned := True\<rparr>),
        trace := [StripSetTabPinned 1 0 True]\<rparr>"

text \<open>Then reconciliation promotes it to real content, the destruction still in the queue.\<close>

definition revived_world :: world where
  "revived_world =
     pinned_world
       \<lparr>helpers := (helpers pinned_world)
          (10 \<mapsto> transient_placeholder\<lparr>m_pinned := True, m_is_placeholder := False\<rparr>),
        guests := (guests pinned_world)(10 := live_guest\<lparr>can_run_in_detached_state := True\<rparr>),
        trace := [StripSetTabPinned 1 0 True, UserGestureDone 10, Load 10]\<rparr>"

text \<open>The close request that \<open>MaybeRequestWindowClose\<close> issues for a record.\<close>

definition pending_close_request :: "TabHelper \<Rightarrow> effect list" where
  "pending_close_request h =
     (case m_browser h of
        Some b \<Rightarrow> if m_window_closing h then [RequestToClosePage b] else []
      | None \<Rightarrow> [])"

text \<open>
  Two windows as in \<open>two_windows\<close>, window 2 last active, with a close pending on the
  pinned placeholder of window 1.
\<close>

definition closing_world :: world where
  "closing_world =
     (two_windows (Some 2))
       \<lparr>helpers := (helpers (two_windows (Some 2)))
          (10 \<mapsto> pinned_placeholder\<lparr>m_window_closing := True\<rparr>)\<rparr>"

text \<open>
  Window 1 with three slots. Surface 10 sat in strip position 2 with the logical index 5
  (\<open>SetTabIndex(5)\<close>); the strip has just put the new surface 20 in its place and is
  about to notify its observers.
\<close>

definition indexed_tab :: TabHelper where
  "indexed_tab =
     \<lparr>m_index = 5, m_pinned = False, m_is_placeholder = False, m_window_closing = False,
      m_browser = Some 1\<rparr>"

definition replace_world :: world where
  "replace_world =
     empty_world
       \<lparr>helpers := (\<lambda>c. if c = 10 then Some indexed_tab
                         else if c = 20 then Some NewTabHelper else None),
        guests := (\<lambda>c. if c = 10 then live_guest else idle_guest),
        session_window := (\<lambda>c. if c = 10 then 1 else - 1),
        browser_list := [1],
        browsers := (\<lambda>b. if b = 1 then \<lparr>session_id = 1, tab_strip = [11, 12, 20]\<rparr>
                          else \<lparr>session_id = - 1, tab_strip = []\<rparr>),
        last_active := Some 1,
        next_contents := 21\<rparr>"

text \<open>Observations on a result: a record's index and window, and the returned surface.\<close>

definition index_after :: "error + world \<Rightarrow> surface \<Rightarrow> int option" where
  "index_after r c = (case r of Inl e \<Rightarrow> None | Inr w \<Rightarrow> map_option m_index (helpers w c))"

definition window_after :: "error + world \<Rightarrow> surface \<Rightarrow> browser option option" where
  "window_after r c = (case r of Inl e \<Rightarrow> None | Inr w \<Rightarrow> map_option m_browser (helpers w c))"

definition returned :: "error + ('a \<times> world) \<Rightarrow> 'a option" where
  "returned r = (case r of Inl e \<Rightarrow> None | Inr (x, w) \<Rightarrow> Some x)"

text \<open>
  The occupant of a slot, as \<open>GetTabStripIndex\<close> looks it up: a surface whose record has
  the index and whose session window is the window.
\<close>

definition is_occupant :: "world \<Rightarrow> int \<Rightarrow> int \<Rightarrow> surface \<Rightarrow> bool" where
  "is_occupant w wid i c =
     (case FromWebContents w c of
        Some tab_helper \<Rightarrow> m_index tab_helper = i \<and> window_id w c = wid
      | None \<Rightarrow> False)"

text \<open>
  The world of the tab move with one more surface, 30: a tab with a record and a guest
  that is not attached, in no strip.
\<close>

definition attach_world :: world where
  "attach_world =
     move_world\<lparr>helpers := (helpers move_world)(30 \<mapsto> NewTabHelper), next_contents := 31\<rparr>"

text \<open>The strip of a window after a call that returns a value and a world.\<close>

definition strip_after :: "error + ('a \<times> world) \<Rightarrow> browser \<Rightarrow> surface list option" where
  "strip_after r b = (case r of Inl e \<Rightarrow> None | Inr (x, w) \<Rightarrow> Some (tab_strip (browsers w b)))"

section \<open>Verified properties\<close>

subsection \<open>Reconciliation\<close>

lemma SetPlaceholder_Some:
  "helpers w this = Some h \<Longrightarrow>
   SetPlaceholder w this b =
     Inr (if b then w\<lparr>helpers := (helpers w)(this \<mapsto> h\<lparr>m_is_placeholder := True\<rparr>)\<rparr>
          else w\<lparr>helpers := (helpers w)(this \<mapsto> h\<lparr>m_is_placeholder := False\<rparr>),
                 guests := (guests w)
                   (this := (guests w this)\<lparr>can_run_in_detached_state := True\<rparr>)\<rparr>)"
  by (simp add: SetPlaceholder_def SetCanRunInDetachedState_def)

lemma MaybeAttach_None:
  "helpers w this = None \<Longrightarrow> MaybeAttachOrCreatePinnedTab w this = Inl NullTabHelper"
  by (simp add: MaybeAttachOrCreatePinnedTab_def)

lemma MaybeAttach_skip:
  "helpers w this = Some h \<Longrightarrow> \<not> may_promote w h this \<Longrightarrow>
   MaybeAttachOrCreatePinnedTab w this = Inr w"
  by (auto simp: MaybeAttachOrCreatePinnedTab_def may_promote_def)

lemma MaybeAttach_promote:
  "helpers w this = Some h \<Longrightarrow> may_promote w h this \<Longrightarrow>
   MaybeAttachOrCreatePinnedTab w this =
     Inr (w\<lparr>helpers := (helpers w)(this \<mapsto> h\<lparr>m_is_placeholder := False\<rparr>),
            guests := (guests w)
              (this := (guests w this)\<lparr>can_run_in_detached_state := True\<rparr>),
            trace := trace w @ [UserGestureDone this, Load this]\<rparr>)"
  by (simp add: MaybeAttachOrCreatePinnedTab_def may_promote_def SetPlaceholder_Some emit_def)

lemma MaybeAttach_promote_changes:
  assumes "helpers w this = Some h" and "may_promote w h this"
  shows "MaybeAttachOrCreatePinnedTab w this \<noteq> Inr w"
proof
  assume "MaybeAttachOrCreatePinnedTab w this = Inr w"
  with MaybeAttach_promote [OF assms]
  have "w = w\<lparr>helpers := (helpers w)(this \<mapsto> h\<lparr>m_is_placeholder := False\<rparr>),
              guests := (guests w)
                (this := (guests w this)\<lparr>can_run_in_detached_state := True\<rparr>),
              trace := trace w @ [UserGestureDone this, Load this]\<rparr>"
    by simp
  then have "trace w = trace w @ [UserGestureDone this, Load this]"
    by (drule_tac f = trace in arg_cong) simp
  then show False by simp
qed

lemma two_windows_helper_10: "helpers (two_windows la) 10 = Some pinned_placeholder"
  by (simp add: two_windows_def)

lemma two_windows_may_promote:
  "may_promote (two_windows la) pinned_placeholder 10 \<longleftrightarrow> la = Some 1"
  by (auto simp: may_promote_def two_windows_def pinned_placeholder_def live_guest_def
      GetLastActive_def)

lemma two_windows_guest_10: "guests (two_windows la) 10 = live_guest"
  by (simp add: two_windows_def)

lemma two_windows_trace: "trace (two_windows la) = []"
  by (simp add: two_windows_def empty_world_def)

lemma scenario_B_promotes:
  "MaybeAttachOrCreatePinnedTab (two_windows (Some 1)) 10 = Inr promoted_world"
proof -
  have p: "may_promote (two_windows (Some 1)) pinned_placeholder 10"
    by (simp add: two_windows_may_promote)
  show ?thesis
    unfolding MaybeAttach_promote [OF two_windows_helper_10 p] promoted_world_def
    by (simp add: two_windows_guest_10 two_windows_trace)
qed

text \<open>
  C1. \<open>MaybeAttachOrCreatePinnedTab\<close> promotes the tab exactly when the tab is pinned, is a
  placeholder, its guest is attached, no window close is pending on it and its owning
  window \<open>browser_\<close> equals the registry's last-active window (both are nullable
  references, compared as such). When it promotes, the world changes in exactly three
  places: the record's placeholder flag is false (with the detached-state permission that
  \<open>SetPlaceholder(false)\<close> grants), and the trace gains \<open>UserGestureDone\<close> followed by one
  \<open>Load\<close>, so each was issued exactly once. When a precondition fails, the world is returned
  as it was.
\<close>

theorem MaybeAttachOrCreatePinnedTab_promotes_iff:
  assumes "helpers w this = Some h"
  shows "(may_promote w h this \<longrightarrow>
            MaybeAttachOrCreatePinnedTab w this =
              Inr (w\<lparr>helpers := (helpers w)(this \<mapsto> h\<lparr>m_is_placeholder := False\<rparr>),
                     guests := (guests w)
                       (this := (guests w this)\<lparr>can_run_in_detached_state := True\<rparr>),
                     trace := trace w @ [UserGestureDone this, Load this]\<rparr>)) \<and>
         (\<not> may_promote w h this \<longrightarrow> MaybeAttachOrCreatePinnedTab w this = Inr w) \<and>
         (MaybeAttachOrCreatePinnedTab w this \<noteq> Inr w \<longleftrightarrow> may_promote w h this) \<and>
         (\<forall>w'. MaybeAttachOrCreatePinnedTab w this = Inr w' \<and> may_promote w h this \<longrightarrow>
            issued w' (Load this) = issued w (Load this) + 1 \<and>
            issued w' (UserGestureDone this) = issued w (UserGestureDone this) + 1)"
proof -
  have skip: "\<not> may_promote w h this \<Longrightarrow> MaybeAttachOrCreatePinnedTab w this = Inr w"
    using assms by (rule MaybeAttach_skip)
  have pro: "may_promote w h this \<Longrightarrow>
      MaybeAttachOrCreatePinnedTab w this =
        Inr (w\<lparr>helpers := (helpers w)(this \<mapsto> h\<lparr>m_is_placeholder := False\<rparr>),
               guests := (guests w)
                 (this := (guests w this)\<lparr>can_run_in_detached_state := True\<rparr>),
               trace := trace w @ [UserGestureDone this, Load this]\<rparr>)"
    using assms by (rule MaybeAttach_promote)
  have changed: "may_promote w h this \<Longrightarrow> MaybeAttachOrCreatePinnedTab w this \<noteq> Inr w"
    using assms by (rule MaybeAttach_promote_changes)
  show ?thesis
    using skip pro changed by (auto simp: issued_def)
qed

text \<open>
  Scenarios A and B of the spec: with window 2 last active the pinned placeholder of
  window 1 stays as it is; with window 1 last active it is promoted.
\<close>

theorem MaybeAttachOrCreatePinnedTab_promotes_iff_witness:
  "helpers (two_windows (Some 1)) 10 = Some pinned_placeholder \<and>
   may_promote (two_windows (Some 1)) pinned_placeholder 10 \<and>
   MaybeAttachOrCreatePinnedTab (two_windows (Some 1)) 10 \<noteq> Inr (two_windows (Some 1)) \<and>
   helpers (two_windows (Some 2)) 10 = Some pinned_placeholder \<and>
   \<not> may_promote (two_windows (Some 2)) pinned_placeholder 10 \<and>
   MaybeAttachOrCreatePinnedTab (two_windows (Some 2)) 10 = Inr (two_windows (Some 2))"
proof -
  have p1: "may_promote (two_windows (Some 1)) pinned_placeholder 10"
    by (simp add: two_windows_may_promote)
  have p2: "\<not> may_promote (two_windows (Some 2)) pinned_placeholder 10"
    by (simp add: two_windows_may_promote)
  from MaybeAttachOrCreatePinnedTab_promotes_iff [OF two_windows_helper_10, of "Some 1"] p1
  have b: "MaybeAttachOrCreatePinnedTab (two_windows (Some 1)) 10 \<noteq> Inr (two_windows (Some 1))"
    by blast
  from MaybeAttachOrCreatePinnedTab_promotes_iff [OF two_windows_helper_10, of "Some 2"] p2
  have a: "MaybeAttachOrCreatePinnedTab (two_windows (Some 2)) 10 = Inr (two_windows (Some 2))"
    by blast
  from p1 p2 a b show ?thesis
    by (simp add: two_windows_helper_10)
qed

text \<open>
  C6. Running \<open>MaybeAttachOrCreatePinnedTab\<close> twice in a row is the same as running it once:
  whatever world the first call returns, the second call returns that world unchanged, so
  it adds nothing to the trace and in particular no second \<open>Load\<close>.
\<close>

theorem MaybeAttachOrCreatePinnedTab_idempotent:
  "and_then (MaybeAttachOrCreatePinnedTab w this) (\<lambda>w1. MaybeAttachOrCreatePinnedTab w1 this) =
     MaybeAttachOrCreatePinnedTab w this \<and>
   (\<forall>w1. MaybeAttachOrCreatePinnedTab w this = Inr w1 \<longrightarrow>
      MaybeAttachOrCreatePinnedTab w1 this = Inr w1 \<and>
      issued (case MaybeAttachOrCreatePinnedTab w1 this of Inr w2 \<Rightarrow> w2 | Inl e \<Rightarrow> w1) (Load this) =
        issued w1 (Load this))"
proof -
  have again: "MaybeAttachOrCreatePinnedTab w1 this = Inr w1"
    if first: "MaybeAttachOrCreatePinnedTab w this = Inr w1" for w1
  proof (cases "helpers w this")
    case None
    with first show ?thesis by (simp add: MaybeAttach_None)
  next
    case (Some h)
    show ?thesis
    proof (cases "may_promote w h this")
      case False
      with Some first show ?thesis by (simp add: MaybeAttach_skip)
    next
      case True
      from first MaybeAttach_promote [OF Some True]
      have w1: "w1 = w\<lparr>helpers := (helpers w)(this \<mapsto> h\<lparr>m_is_placeholder := False\<rparr>),
                      guests := (guests w)
                        (this := (guests w this)\<lparr>can_run_in_detached_state := True\<rparr>),
                      trace := trace w @ [UserGestureDone this, Load this]\<rparr>"
        by simp
      have h1: "helpers w1 this = Some (h\<lparr>m_is_placeholder := False\<rparr>)"
        by (simp add: w1)
      have "\<not> may_promote w1 (h\<lparr>m_is_placeholder := False\<rparr>) this"
        by (simp add: may_promote_def)
      with h1 show ?thesis by (rule MaybeAttach_skip)
    qed
  qed
  show ?thesis
  proof (cases "MaybeAttachOrCreatePinnedTab w this")
    case (Inl e)
    then show ?thesis by (simp add: and_then_def)
  next
    case (Inr w1)
    with again [OF Inr] show ?thesis by (simp add: and_then_def)
  qed
qed

theorem MaybeAttachOrCreatePinnedTab_idempotent_witness:
  "MaybeAttachOrCreatePinnedTab (two_windows (Some 1)) 10 = Inr promoted_world \<and>
   MaybeAttachOrCreatePinnedTab promoted_world 10 = Inr promoted_world \<and>
   issued promoted_world (Load 10) = 1"
proof -
  note first = scenario_B_promotes
  from MaybeAttachOrCreatePinnedTab_idempotent [of "two_windows (Some 1)" 10] first
  have again: "MaybeAttachOrCreatePinnedTab promoted_world 10 = Inr promoted_world"
    by blast
  have "issued promoted_world (Load 10) = 1"
    by (simp add: issued_def promoted_world_def)
  with first again show ?thesis by simp
qed

subsection \<open>Callbacks for other surfaces\<close>

text \<open>
  C10. A strip-observer callback (\<open>TabReplacedAt\<close>, \<open>TabDetachedAt\<close>,
  \<open>TabPinnedStateChanged\<close>) delivered for a surface other than the record's own returns the
  world as it was: the record's index, pin, placeholder and pending-close flags and its
  window are the same, as is every other record, and the trace has no new event.
\<close>

theorem strip_callbacks_for_other_surface_unchanged:
  assumes "helpers w this = Some h" and "contents \<noteq> this"
  shows "TabReplacedAt w this contents new_contents i = Inr w \<and>
         TabDetachedAt w this contents i = Inr w \<and>
         TabPinnedStateChanged w this contents i = Inr w"
  using assms
  by (simp add: TabReplacedAt_def TabDetachedAt_def TabPinnedStateChanged_def)

theorem strip_callbacks_for_other_surface_unchanged_witness:
  "helpers (two_windows (Some 1)) 10 = Some pinned_placeholder \<and> (20 :: surface) \<noteq> 10 \<and>
   TabReplacedAt (two_windows (Some 1)) 10 20 10 0 = Inr (two_windows (Some 1)) \<and>
   TabDetachedAt (two_windows (Some 1)) 10 20 0 = Inr (two_windows (Some 1)) \<and>
   TabPinnedStateChanged (two_windows (Some 1)) 10 20 0 = Inr (two_windows (Some 1))"
proof -
  have ne: "(20 :: surface) \<noteq> 10" by simp
  from strip_callbacks_for_other_surface_unchanged [OF two_windows_helper_10 ne]
  show ?thesis
    by (simp add: two_windows_helper_10)
qed

subsection \<open>Attach notification and the posted destruction\<close>

lemma MaybeRequestWindowClose_Some:
  "helpers w this = Some h \<Longrightarrow>
   MaybeRequestWindowClose w this = Inr (w\<lparr>trace := trace w @ pending_close_request h\<rparr>)"
  by (simp add: MaybeRequestWindowClose_def pending_close_request_def emit_def
      split: option.splits)

lemma pending_close_request_count:
  "count_list (pending_close_request h) (GuestDestroy c) = 0 \<and>
   count_list (pending_close_request h) (Load c) = 0"
  by (simp add: pending_close_request_def split: option.splits)

lemma MaybeAttach_posted:
  "MaybeAttachOrCreatePinnedTab w this = Inr w' \<Longrightarrow>
   posted w' = posted w \<and> issued w' (GuestDestroy c) = issued w (GuestDestroy c)"
  by (auto simp: MaybeAttachOrCreatePinnedTab_def SetPlaceholder_def
      SetCanRunInDetachedState_def emit_def issued_def
      split: option.splits if_splits)

text \<open>
  C5. \<open>DidAttach\<close> on a placeholder record first repeats a pending close request and
  withdraws the permission to run detached. Then, if the tab is neither pinned nor
  discarded, it posts the destruction of its surface: the queue gains \<open>DestroyTabTask\<close>,
  nothing is destroyed or loaded during the notification. Otherwise (pinned or discarded)
  it runs \<open>MaybeAttachOrCreatePinnedTab\<close> and posts nothing. The two cases exclude each
  other and cover every placeholder.
\<close>

theorem DidAttach_placeholder_branches:
  assumes "helpers w this = Some h" and "m_is_placeholder h"
  shows "(\<not> m_pinned h \<and> \<not> IsDiscarded w this \<longrightarrow>
            DidAttach w this =
              Inr (w\<lparr>guests := (guests w)
                        (this := (guests w this)\<lparr>can_run_in_detached_state := False\<rparr>),
                     posted := posted w @ [DestroyTabTask this],
                     trace := trace w @ pending_close_request h\<rparr>) \<and>
            count_list (pending_close_request h) (GuestDestroy this) = 0 \<and>
            count_list (pending_close_request h) (Load this) = 0) \<and>
         (m_pinned h \<or> IsDiscarded w this \<longrightarrow>
            DidAttach w this =
              MaybeAttachOrCreatePinnedTab
                (w\<lparr>trace := trace w @ pending_close_request h,
                   guests := (guests w)
                      (this := (guests w this)\<lparr>can_run_in_detached_state := False\<rparr>)\<rparr>) this \<and>
            (\<forall>w'. DidAttach w this = Inr w' \<longrightarrow>
               posted w' = posted w \<and>
               issued w' (GuestDestroy this) = issued w (GuestDestroy this)))"
proof -
  let ?w2 = "w\<lparr>trace := trace w @ pending_close_request h,
               guests := (guests w)
                  (this := (guests w this)\<lparr>can_run_in_detached_state := False\<rparr>)\<rparr>"
  have post: "DidAttach w this = Inr (?w2\<lparr>posted := posted w @ [DestroyTabTask this]\<rparr>)"
    if "\<not> m_pinned h" and "\<not> IsDiscarded w this"
    using assms that
    by (simp add: DidAttach_def MaybeRequestWindowClose_Some SetCanRunInDetachedState_def
        PostTask_def IsDiscarded_def)
  have rec: "DidAttach w this = MaybeAttachOrCreatePinnedTab ?w2 this"
    if "m_pinned h \<or> IsDiscarded w this"
    using assms that
    by (auto simp: DidAttach_def MaybeRequestWindowClose_Some SetCanRunInDetachedState_def
        IsDiscarded_def)
  have keep: "posted w' = posted w \<and> issued w' (GuestDestroy this) = issued w (GuestDestroy this)"
    if "m_pinned h \<or> IsDiscarded w this" and "DidAttach w this = Inr w'" for w'
  proof -
    from that rec have "MaybeAttachOrCreatePinnedTab ?w2 this = Inr w'" by simp
    from MaybeAttach_posted [OF this, of this]
    show ?thesis
      by (simp add: issued_def pending_close_request_count)
  qed
  from post rec keep show ?thesis
    by (simp add: pending_close_request_count)
qed

lemma move_world_helper_10: "helpers move_world 10 = Some transient_placeholder"
  by (simp add: move_world_def)

text \<open>
  The placeholder of a tab move has its destruction posted; the pinned placeholder of
  scenario B is reconciled instead, and its queue stays empty.
\<close>

theorem DidAttach_placeholder_branches_witness:
  "helpers move_world 10 = Some transient_placeholder \<and>
   m_is_placeholder transient_placeholder \<and>
   \<not> m_pinned transient_placeholder \<and> \<not> IsDiscarded move_world 10 \<and>
   DidAttach move_world 10 = Inr posted_world \<and>
   helpers (two_windows (Some 1)) 10 = Some pinned_placeholder \<and>
   m_is_placeholder pinned_placeholder \<and> m_pinned pinned_placeholder \<and>
   DidAttach (two_windows (Some 1)) 10 = Inr promoted_world"
proof -
  have a: "m_is_placeholder transient_placeholder" "\<not> m_pinned transient_placeholder"
    "\<not> IsDiscarded move_world 10"
    by (simp_all add: transient_placeholder_def IsDiscarded_def move_world_def empty_world_def)
  have b: "m_is_placeholder pinned_placeholder" "m_pinned pinned_placeholder"
    by (simp_all add: pinned_placeholder_def)
  have nc1: "pending_close_request transient_placeholder = []"
    by (simp add: pending_close_request_def transient_placeholder_def)
  have nc2: "pending_close_request pinned_placeholder = []"
    by (simp add: pending_close_request_def pinned_placeholder_def)
  from DidAttach_placeholder_branches [OF move_world_helper_10 a(1)] a(2,3)
  have "DidAttach move_world 10 =
      Inr (move_world\<lparr>guests := (guests move_world)
                        (10 := (guests move_world 10)\<lparr>can_run_in_detached_state := False\<rparr>),
                      posted := posted move_world @ [DestroyTabTask 10],
                      trace := trace move_world @ pending_close_request transient_placeholder\<rparr>)"
    by blast
  also have "\<dots> = Inr posted_world"
    by (simp add: nc1 posted_world_def move_world_def empty_world_def live_guest_def fun_eq_iff)
  finally have c: "DidAttach move_world 10 = Inr posted_world" .
  from DidAttach_placeholder_branches [OF two_windows_helper_10 b(1), of "Some 1"] b(2)
  have "DidAttach (two_windows (Some 1)) 10 =
      MaybeAttachOrCreatePinnedTab
        ((two_windows (Some 1))
           \<lparr>trace := trace (two_windows (Some 1)) @ pending_close_request pinned_placeholder,
            guests := (guests (two_windows (Some 1)))
              (10 := (guests (two_windows (Some 1)) 10)\<lparr>can_run_in_detached_state := False\<rparr>)\<rparr>) 10"
    by blast
  also have "(two_windows (Some 1))
           \<lparr>trace := trace (two_windows (Some 1)) @ pending_close_request pinned_placeholder,
            guests := (guests (two_windows (Some 1)))
              (10 := (guests (two_windows (Some 1)) 10)\<lparr>can_run_in_detached_state := False\<rparr>)\<rparr> =
        two_windows (Some 1)"
    by (simp add: nc2 two_windows_def empty_world_def live_guest_def fun_eq_iff)
  finally have d: "DidAttach (two_windows (Some 1)) 10 = Inr promoted_world"
    by (simp only: scenario_B_promotes)
  from a b c d show ?thesis
    by (simp add: move_world_helper_10 two_windows_helper_10)
qed

lemma DidAttach_posts:
  assumes "helpers w this = Some h" and "m_is_placeholder h"
    and "\<not> m_pinned h" and "\<not> IsDiscarded w this"
  shows "DidAttach w this =
           Inr (w\<lparr>guests := (guests w)
                     (this := (guests w this)\<lparr>can_run_in_detached_state := False\<rparr>),
                  posted := posted w @ [DestroyTabTask this],
                  trace := trace w @ pending_close_request h\<rparr>)"
  using assms
  by (simp add: DidAttach_def MaybeRequestWindowClose_Some SetCanRunInDetachedState_def
      PostTask_def IsDiscarded_def)

lemma DidAttach_move_world: "DidAttach move_world 10 = Inr posted_world"
proof -
  have "DidAttach move_world 10 =
      Inr (move_world\<lparr>guests := (guests move_world)
                        (10 := (guests move_world 10)\<lparr>can_run_in_detached_state := False\<rparr>),
                      posted := posted move_world @ [DestroyTabTask 10],
                      trace := trace move_world @ pending_close_request transient_placeholder\<rparr>)"
    by (rule DidAttach_posts [OF move_world_helper_10])
      (simp_all add: transient_placeholder_def IsDiscarded_def move_world_def empty_world_def)
  also have "\<dots> = Inr posted_world"
    by (simp add: pending_close_request_def transient_placeholder_def posted_world_def
        move_world_def empty_world_def live_guest_def fun_eq_iff)
  finally show ?thesis .
qed

lemma SetPinned_posted_world:
  "SetPinned posted_world 10 True = Inr pinned_world"
  by (simp add: SetPinned_def posted_world_def move_world_def empty_world_def
      transient_placeholder_def SetTabPinned_def ContainsIndex_def get_tab_strip_index_def
      SetPlaceholder_def emit_def pinned_world_def fun_eq_iff)

lemma pinned_world_helper_10:
  "helpers pinned_world 10 = Some (transient_placeholder\<lparr>m_pinned := True\<rparr>)"
  by (simp add: pinned_world_def)

lemma pinned_world_may_promote:
  "may_promote pinned_world (transient_placeholder\<lparr>m_pinned := True\<rparr>) 10"
  by (simp add: may_promote_def pinned_world_def posted_world_def move_world_def
      empty_world_def transient_placeholder_def live_guest_def GetLastActive_def)

lemma TabPinnedStateChanged_pinned_world:
  "TabPinnedStateChanged pinned_world 10 10 0 = Inr revived_world"
proof -
  have "TabPinnedStateChanged pinned_world 10 10 0 = MaybeAttachOrCreatePinnedTab pinned_world 10"
    by (simp add: TabPinnedStateChanged_def pinned_world_helper_10)
  also have "\<dots> = Inr revived_world"
    unfolding MaybeAttach_promote [OF pinned_world_helper_10 pinned_world_may_promote]
      revived_world_def
    by (simp add: pinned_world_def posted_world_def move_world_def empty_world_def
        transient_placeholder_def)
  finally show ?thesis .
qed

lemma revived_world_facts:
  "helpers revived_world 10 =
     Some (transient_placeholder\<lparr>m_pinned := True, m_is_placeholder := False\<rparr>) \<and>
   posted revived_world = [DestroyTabTask 10] \<and>
   issued revived_world (GuestDestroy 10) = 0"
  by (simp add: revived_world_def pinned_world_def posted_world_def issued_def)

lemma RunNextTask_destroy:
  "posted w = DestroyTabTask c # ts \<Longrightarrow>
   RunNextTask w = w\<lparr>posted := ts, trace := trace w @ [GuestDestroy c]\<rparr>"
  by (simp add: RunNextTask_def DestroyTab_def emit_def)

text \<open>
  C3, as stated, fails. The placeholder of a tab move is attached (\<open>DidAttach\<close> posts its
  destruction), then pinned, then promoted to real content by reconciliation; its record
  now has \<open>is_placeholder = false\<close>. The posted task still destroys the surface.
\<close>

theorem posted_destruction_recheck_counterexample:
  "DidAttach move_world 10 = Inr posted_world \<and>
   SetPinned posted_world 10 True = Inr pinned_world \<and>
   TabPinnedStateChanged pinned_world 10 10 0 = Inr revived_world \<and>
   helpers revived_world 10 =
     Some (transient_placeholder\<lparr>m_pinned := True, m_is_placeholder := False\<rparr>) \<and>
   posted revived_world = [DestroyTabTask 10] \<and>
   issued revived_world (GuestDestroy 10) = 0 \<and>
   issued (RunNextTask revived_world) (GuestDestroy 10) = 1 \<and>
   RunNextTask revived_world \<noteq> revived_world\<lparr>posted := []\<rparr>"
proof -
  note a = DidAttach_move_world
  have run: "RunNextTask revived_world =
      revived_world\<lparr>posted := [], trace := trace revived_world @ [GuestDestroy 10]\<rparr>"
    by (rule RunNextTask_destroy) (simp add: revived_world_facts)
  have b: "issued (RunNextTask revived_world) (GuestDestroy 10) = 1"
    unfolding run by (simp add: issued_def revived_world_def)
  have c: "RunNextTask revived_world \<noteq> revived_world\<lparr>posted := []\<rparr>"
  proof
    assume "RunNextTask revived_world = revived_world\<lparr>posted := []\<rparr>"
    then have "issued (RunNextTask revived_world) (GuestDestroy 10) =
        issued (revived_world\<lparr>posted := []\<rparr>) (GuestDestroy 10)"
      by simp
    with b show False
      by (simp add: issued_def revived_world_def)
  qed
  from a b c show ?thesis
    by (simp add: SetPinned_posted_world TabPinnedStateChanged_pinned_world revived_world_facts)
qed

text \<open>
  C3, amended. \<open>DestroyTab\<close> never reads the record: when a posted destruction task runs
  it asks the guest to destroy the surface, whatever the placeholder flag says by then.
  The task leaves the queue and the trace gains one \<open>GuestDestroy\<close>.
\<close>

theorem posted_destruction_unconditional:
  assumes "posted w = DestroyTabTask c # ts"
  shows "RunNextTask w = w\<lparr>posted := ts, trace := trace w @ [GuestDestroy c]\<rparr> \<and>
         issued (RunNextTask w) (GuestDestroy c) = issued w (GuestDestroy c) + 1 \<and>
         DestroyTab w c = w\<lparr>trace := trace w @ [GuestDestroy c]\<rparr>"
  using assms
  by (simp add: RunNextTask_def DestroyTab_def emit_def issued_def)

theorem posted_destruction_unconditional_witness:
  "posted revived_world = [DestroyTabTask 10] \<and>
   helpers revived_world 10 =
     Some (transient_placeholder\<lparr>m_pinned := True, m_is_placeholder := False\<rparr>) \<and>
   issued (RunNextTask revived_world) (GuestDestroy 10) =
     issued revived_world (GuestDestroy 10) + 1"
proof -
  have p: "posted revived_world = [DestroyTabTask 10]"
    by (simp add: revived_world_facts)
  from posted_destruction_unconditional [OF p]
  have "issued (RunNextTask revived_world) (GuestDestroy 10) =
      issued revived_world (GuestDestroy 10) + 1"
    by blast
  with p show ?thesis
    by (simp only: revived_world_facts simp_thms)
qed

subsection \<open>Window close\<close>

lemma WillCloseWindow_protected:
  assumes "helpers w this = Some h" and "close_protected w h" and "m_browser h = Some b"
  shows "WillCloseWindow w this pd =
           Inr (pd, w\<lparr>helpers := (helpers w)(this \<mapsto> h\<lparr>m_window_closing := False\<rparr>),
                      trace := trace w @ [Deactivate b, Hide b]\<rparr>)"
  using assms
  by (simp add: WillCloseWindow_def close_protected_def IsTryingToQuit_def emit_def)

lemma WillCloseWindow_unprotected:
  assumes "helpers w this = Some h" and "\<not> close_protected w h"
  shows "WillCloseWindow w this pd =
           Inr (pd, w\<lparr>helpers := (helpers w)(this \<mapsto> h\<lparr>m_window_closing := False\<rparr>)\<rparr>)"
  using assms
  by (auto simp: WillCloseWindow_def close_protected_def IsTryingToQuit_def Let_def
      split: option.splits)

lemma promoted_world_helper_10:
  "helpers promoted_world 10 = Some (pinned_placeholder\<lparr>m_is_placeholder := False\<rparr>)"
  by (simp add: promoted_world_def)

lemma promoted_world_protected:
  "close_protected promoted_world (pinned_placeholder\<lparr>m_is_placeholder := False\<rparr>)"
  by (simp add: close_protected_def promoted_world_def two_windows_def empty_world_def
      pinned_placeholder_def IsTryingToQuit_def)

lemma closing_world_helper_10:
  "helpers closing_world 10 = Some (pinned_placeholder\<lparr>m_window_closing := True\<rparr>)"
  by (simp add: closing_world_def)

lemma closing_world_unprotected:
  "\<not> close_protected closing_world (pinned_placeholder\<lparr>m_window_closing := True\<rparr>)"
  by (simp add: close_protected_def pinned_placeholder_def)

text \<open>
  C4, as stated, fails in two places. In the protected state (window 1 of two windows
  closes while holding the pinned, promoted surface 10, no shutdown) the window is
  deactivated and hidden, but the out-parameter \<open>prevent_default\<close> comes back as it went in,
  \<open>false\<close>: the close is not vetoed. Outside the protected state (a pinned placeholder with
  a close pending) the call is not without effect: it clears the pending-close flag.
\<close>

theorem WillCloseWindow_counterexample:
  "close_protected promoted_world (pinned_placeholder\<lparr>m_is_placeholder := False\<rparr>) \<and>
   WillCloseWindow promoted_world 10 False =
     Inr (False,
          promoted_world
            \<lparr>helpers := (helpers promoted_world)
               (10 \<mapsto> pinned_placeholder\<lparr>m_is_placeholder := False, m_window_closing := False\<rparr>),
             trace := trace promoted_world @ [Deactivate 1, Hide 1]\<rparr>) \<and>
   \<not> close_protected closing_world (pinned_placeholder\<lparr>m_window_closing := True\<rparr>) \<and>
   WillCloseWindow closing_world 10 False \<noteq> Inr (False, closing_world)"
proof -
  have b: "m_browser (pinned_placeholder\<lparr>m_is_placeholder := False\<rparr>) = Some 1"
    by (simp add: pinned_placeholder_def)
  have one: "WillCloseWindow promoted_world 10 False =
     Inr (False,
          promoted_world
            \<lparr>helpers := (helpers promoted_world)
               (10 \<mapsto> pinned_placeholder\<lparr>m_is_placeholder := False, m_window_closing := False\<rparr>),
             trace := trace promoted_world @ [Deactivate 1, Hide 1]\<rparr>)"
    using WillCloseWindow_protected [OF promoted_world_helper_10 promoted_world_protected b]
    by simp
  have two: "WillCloseWindow closing_world 10 False \<noteq> Inr (False, closing_world)"
  proof
    assume "WillCloseWindow closing_world 10 False = Inr (False, closing_world)"
    with WillCloseWindow_unprotected [OF closing_world_helper_10 closing_world_unprotected]
    have "closing_world =
        closing_world\<lparr>helpers := (helpers closing_world)
          (10 \<mapsto> pinned_placeholder\<lparr>m_window_closing := True, m_window_closing := False\<rparr>)\<rparr>"
      by simp
    then have "helpers closing_world 10 =
        Some (pinned_placeholder\<lparr>m_window_closing := True, m_window_closing := False\<rparr>)"
      by (drule_tac f = "\<lambda>w. helpers w 10" in arg_cong) simp
    then show False
      by (simp add: closing_world_helper_10 pinned_placeholder_def)
  qed
  from one two show ?thesis
    by (simp only: promoted_world_protected closing_world_unprotected simp_thms)
qed

text \<open>
  C4, amended. \<open>WillCloseWindow\<close> clears the record's pending-close flag on every call and
  never writes \<open>prevent_default\<close>. In the protected state (the record has a window, the tab
  is pinned and not a placeholder, the process is not shutting down, more than one window
  is open) it also deactivates and hides the window, in this order. Outside the protected
  state it issues no window operation; when no close was pending the world is unchanged.
\<close>

theorem WillCloseWindow_hides_protected:
  assumes "helpers w this = Some h"
  shows "(\<forall>b. close_protected w h \<and> m_browser h = Some b \<longrightarrow>
            WillCloseWindow w this pd =
              Inr (pd, w\<lparr>helpers := (helpers w)(this \<mapsto> h\<lparr>m_window_closing := False\<rparr>),
                         trace := trace w @ [Deactivate b, Hide b]\<rparr>)) \<and>
         (\<not> close_protected w h \<longrightarrow>
            WillCloseWindow w this pd =
              Inr (pd, w\<lparr>helpers := (helpers w)(this \<mapsto> h\<lparr>m_window_closing := False\<rparr>)\<rparr>)) \<and>
         (\<not> close_protected w h \<and> \<not> m_window_closing h \<longrightarrow>
            WillCloseWindow w this pd = Inr (pd, w))"
proof -
  have same: "w\<lparr>helpers := (helpers w)(this \<mapsto> h\<lparr>m_window_closing := False\<rparr>)\<rparr> = w"
    if "\<not> m_window_closing h"
  proof -
    from that have "h\<lparr>m_window_closing := False\<rparr> = h" by simp
    with assms have "(helpers w)(this \<mapsto> h\<lparr>m_window_closing := False\<rparr>) = helpers w"
      by (simp add: fun_upd_idem)
    then show ?thesis by simp
  qed
  from assms show ?thesis
    by (auto simp: WillCloseWindow_protected WillCloseWindow_unprotected same)
qed

theorem WillCloseWindow_hides_protected_witness:
  "helpers promoted_world 10 = Some (pinned_placeholder\<lparr>m_is_placeholder := False\<rparr>) \<and>
   close_protected promoted_world (pinned_placeholder\<lparr>m_is_placeholder := False\<rparr>) \<and>
   m_browser (pinned_placeholder\<lparr>m_is_placeholder := False\<rparr>) = Some 1 \<and>
   WillCloseWindow promoted_world 10 False =
     Inr (False,
          promoted_world
            \<lparr>helpers := (helpers promoted_world)
               (10 \<mapsto> pinned_placeholder\<lparr>m_is_placeholder := False, m_window_closing := False\<rparr>),
             trace := trace promoted_world @ [Deactivate 1, Hide 1]\<rparr>) \<and>
   helpers (two_windows (Some 2)) 10 = Some pinned_placeholder \<and>
   \<not> close_protected (two_windows (Some 2)) pinned_placeholder \<and>
   \<not> m_window_closing pinned_placeholder \<and>
   WillCloseWindow (two_windows (Some 2)) 10 False = Inr (False, two_windows (Some 2))"
proof -
  have b: "m_browser (pinned_placeholder\<lparr>m_is_placeholder := False\<rparr>) = Some 1"
    by (simp add: pinned_placeholder_def)
  have u: "\<not> close_protected (two_windows (Some 2)) pinned_placeholder"
    "\<not> m_window_closing pinned_placeholder"
    by (simp_all add: close_protected_def pinned_placeholder_def)
  from WillCloseWindow_hides_protected [OF promoted_world_helper_10, of False]
    promoted_world_protected b
  have one: "WillCloseWindow promoted_world 10 False =
     Inr (False,
          promoted_world
            \<lparr>helpers := (helpers promoted_world)
               (10 \<mapsto> pinned_placeholder\<lparr>m_is_placeholder := False, m_window_closing := False\<rparr>),
             trace := trace promoted_world @ [Deactivate 1, Hide 1]\<rparr>)"
    by blast
  from WillCloseWindow_hides_protected [OF two_windows_helper_10, of "Some 2" False] u
  have two: "WillCloseWindow (two_windows (Some 2)) 10 False = Inr (False, two_windows (Some 2))"
    by blast
  from one two u b show ?thesis
    by (simp only: promoted_world_helper_10 promoted_world_protected two_windows_helper_10
        simp_thms)
qed

subsection \<open>Pinning\<close>

lemma GetIndexOfWebContents_member:
  "c \<in> set xs \<Longrightarrow>
   0 \<le> GetIndexOfWebContents xs c \<and> GetIndexOfWebContents xs c < int (length xs) \<and>
   xs ! nat (GetIndexOfWebContents xs c) = c"
proof (induction xs)
  case Nil
  then show ?case by simp
next
  case (Cons x xs)
  show ?case
  proof (cases "x = c")
    case True
    then show ?thesis by simp
  next
    case False
    with Cons.prems have "c \<in> set xs" by simp
    from Cons.IH [OF this] False show ?thesis
      by (simp add: Let_def kNoTab_def nat_add_distrib)
  qed
qed

lemma GetIndexOfWebContents_absent:
  "c \<notin> set xs \<Longrightarrow> GetIndexOfWebContents xs c = kNoTab"
  by (induction xs) (simp_all add: Let_def)









subsection \<open>Strip replacement\<close>

lemma TabReplacedAt_own:
  assumes h: "helpers w this = Some h" and b: "m_browser h = Some b"
    and nh: "helpers w new_contents = Some nh" and ne: "new_contents \<noteq> this"
  shows "TabReplacedAt w this this new_contents i =
     Inr (emit
            (emit
               (w\<lparr>helpers := (helpers w)
                     (this \<mapsto> h\<lparr>m_browser := None, m_index := kNoTab\<rparr>,
                      new_contents \<mapsto> nh\<lparr>m_index := m_index h, m_pinned := m_pinned h,
                                         m_browser := Some b\<rparr>),
                   guests := (guests w)
                     (new_contents := (guests w new_contents)
                        \<lparr>attach_params := attach_params (guests w this)\<rparr>),
                   trace := trace w @ pending_close_request h @
                     [WindowRemoveObserver b this, StripRemoveObserver b this,
                      StripAddObserver b new_contents, WindowAddObserver b new_contents,
                      WasHidden this,
                      SetAttachParams new_contents (attach_params (guests w this)),
                      TabIdChanged new_contents]\<rparr>)
               (GuestDetachGuest this))
            (GuestAttachGuest new_contents (guest_instance_id (guests w new_contents))))"
proof -
  have ne': "this \<noteq> new_contents" using ne by simp
  have h1: "helpers (w\<lparr>helpers := (helpers w)
      (new_contents \<mapsto> nh\<lparr>m_index := m_index h, m_pinned := m_pinned h\<rparr>)\<rparr>) this = Some h"
    using h ne by simp
  show ?thesis
    using h b nh ne ne'
    by (simp add: TabReplacedAt_def FromWebContents_def OnBrowserRemoved_def
        MaybeRequestWindowClose_Some [OF h1] UpdateBrowser_def emit_def
        Guest_SetAttachParams_def Let_def fun_upd_twist)
qed

lemma replace_world_helpers:
  "helpers replace_world 10 = Some indexed_tab \<and> helpers replace_world 20 = Some NewTabHelper"
  by (simp add: replace_world_def)

lemma indexed_tab_browser: "m_browser indexed_tab = Some 1"
  by (simp add: indexed_tab_def)

text \<open>
  C8, as stated, fails on the slot index. The strip reports the replacement of surface 10
  by surface 20 at position 2; the record of surface 10 carries the logical index 5. After
  the call the new record has index 5, not 2: \<open>TabReplacedAt\<close> copies \<open>index_\<close> and never
  reads its \<open>index\<close> parameter.
\<close>

theorem TabReplacedAt_slot_counterexample:
  "index_after (TabReplacedAt replace_world 10 10 20 2) 20 = Some 5 \<and>
   index_after (TabReplacedAt replace_world 10 10 20 2) 20 \<noteq> Some 2"
proof -
  have ne: "(20 :: surface) \<noteq> 10" by simp
  have "index_after (TabReplacedAt replace_world 10 10 20 2) 20 = Some 5"
    unfolding TabReplacedAt_own [OF replace_world_helpers [THEN conjunct1] indexed_tab_browser
        replace_world_helpers [THEN conjunct2] ne]
    by (simp add: index_after_def emit_def indexed_tab_def)
  then show ?thesis by simp
qed

text \<open>
  C8, amended. Let \<open>TabReplacedAt\<close> run for the record's own surface, whose record has a
  window, with a new surface that is another surface and has a record. The detach
  instruction to the old guest is issued in a world \<open>wb\<close> in which the bookkeeping is
  already complete: the new record has the old record's index (whatever the \<open>index\<close>
  argument is) and pin flag and is observed under the same window; the old record has no
  window and the index \<open>kNoTab\<close>; the new guest carries the old guest's attach parameters;
  the trace lists, after a pending close request if any, the old record's observer
  removal, the new record's observer registration, the hiding of the old surface and the
  parameter hand-over. After \<open>wb\<close> only the detach of the old guest and the attach of the
  new guest follow, in this order. No other record and no strip changes.
\<close>

theorem TabReplacedAt_bookkeeping_then_detach:
  assumes "helpers w this = Some h" and "m_browser h = Some b"
    and "helpers w new_contents = Some nh" and "new_contents \<noteq> this"
  shows "\<exists>wb. TabReplacedAt w this this new_contents i =
           Inr (emit (emit wb (GuestDetachGuest this))
                  (GuestAttachGuest new_contents (guest_instance_id (guests w new_contents)))) \<and>
         helpers wb new_contents =
           Some (nh\<lparr>m_index := m_index h, m_pinned := m_pinned h, m_browser := Some b\<rparr>) \<and>
         helpers wb this = Some (h\<lparr>m_browser := None, m_index := kNoTab\<rparr>) \<and>
         (\<forall>c. c \<noteq> this \<and> c \<noteq> new_contents \<longrightarrow> helpers wb c = helpers w c) \<and>
         attach_params (guests wb new_contents) = attach_params (guests w this) \<and>
         browsers wb = browsers w \<and>
         trace wb = trace w @ pending_close_request h @
           [WindowRemoveObserver b this, StripRemoveObserver b this,
            StripAddObserver b new_contents, WindowAddObserver b new_contents,
            WasHidden this, SetAttachParams new_contents (attach_params (guests w this)),
            TabIdChanged new_contents] \<and>
         index_after (TabReplacedAt w this this new_contents i) new_contents =
           Some (m_index h) \<and>
         window_after (TabReplacedAt w this this new_contents i) new_contents =
           Some (Some b) \<and>
         index_after (TabReplacedAt w this this new_contents i) this = Some kNoTab \<and>
         window_after (TabReplacedAt w this this new_contents i) this = Some None"
proof -
  from assms(4) have ne: "this \<noteq> new_contents" by simp
  show ?thesis
    unfolding TabReplacedAt_own [OF assms]
    by (rule exI [where x = "w\<lparr>helpers := (helpers w)
                     (this \<mapsto> h\<lparr>m_browser := None, m_index := kNoTab\<rparr>,
                      new_contents \<mapsto> nh\<lparr>m_index := m_index h, m_pinned := m_pinned h,
                                         m_browser := Some b\<rparr>),
                   guests := (guests w)
                     (new_contents := (guests w new_contents)
                        \<lparr>attach_params := attach_params (guests w this)\<rparr>),
                   trace := trace w @ pending_close_request h @
                     [WindowRemoveObserver b this, StripRemoveObserver b this,
                      StripAddObserver b new_contents, WindowAddObserver b new_contents,
                      WasHidden this,
                      SetAttachParams new_contents (attach_params (guests w this)),
                      TabIdChanged new_contents]\<rparr>"])
      (simp add: assms(4) ne index_after_def window_after_def emit_def)
qed

theorem TabReplacedAt_bookkeeping_then_detach_witness:
  "helpers replace_world 10 = Some indexed_tab \<and> m_browser indexed_tab = Some 1 \<and>
   helpers replace_world 20 = Some NewTabHelper \<and> (20 :: surface) \<noteq> 10 \<and>
   index_after (TabReplacedAt replace_world 10 10 20 2) 20 = Some (m_index indexed_tab) \<and>
   window_after (TabReplacedAt replace_world 10 10 20 2) 20 = Some (Some 1) \<and>
   index_after (TabReplacedAt replace_world 10 10 20 2) 10 = Some kNoTab \<and>
   window_after (TabReplacedAt replace_world 10 10 20 2) 10 = Some None"
proof -
  have ne: "(20 :: surface) \<noteq> 10" by simp
  from TabReplacedAt_bookkeeping_then_detach
    [OF replace_world_helpers [THEN conjunct1] indexed_tab_browser
      replace_world_helpers [THEN conjunct2] ne, of 2]
  have "index_after (TabReplacedAt replace_world 10 10 20 2) 20 = Some (m_index indexed_tab) \<and>
   window_after (TabReplacedAt replace_world 10 10 20 2) 20 = Some (Some 1) \<and>
   index_after (TabReplacedAt replace_world 10 10 20 2) 10 = Some kNoTab \<and>
   window_after (TabReplacedAt replace_world 10 10 20 2) 10 = Some None"
    by blast
  with replace_world_helpers indexed_tab_browser ne show ?thesis
    by blast
qed

subsection \<open>Attaching\<close>

lemma AttachGuest_from_find:
  "AttachGuest_from w this h wid i bs =
     (case find (\<lambda>b. session_id (browsers w b) = wid) bs of
        None \<Rightarrow> Inr (False, w)
      | Some b \<Rightarrow>
          (case ReplaceWebContentsAt (w\<lparr>helpers := (helpers w)(this \<mapsto> h\<lparr>m_index := i\<rparr>)\<rparr>) b
                  (GetTabStripIndex (w\<lparr>helpers := (helpers w)(this \<mapsto> h\<lparr>m_index := i\<rparr>)\<rparr>) wid i)
                  this of
             Inl e \<Rightarrow> Inl e
           | Inr w2 \<Rightarrow> Inr (True, w2)))"
  by (induction bs) (simp_all add: Let_def)

lemma GetTabStripIndex_from_find:
  "GetTabStripIndex_from w wid i cs =
     (case find (is_occupant w wid i) cs of
        None \<Rightarrow> kNoTab
      | Some c \<Rightarrow> (case helpers w c of
                     None \<Rightarrow> kNoTab
                   | Some tab_helper \<Rightarrow> get_tab_strip_index w tab_helper c))"
  by (induction cs) (auto simp: is_occupant_def FromWebContents_def split: option.splits)

lemma GetTabStripIndex_from_cong:
  assumes "\<forall>c \<in> set cs. helpers w' c = helpers w c"
    and "session_window w' = session_window w" and "browsers w' = browsers w"
  shows "GetTabStripIndex_from w' wid i cs = GetTabStripIndex_from w wid i cs"
  using assms
  by (induction cs)
    (simp_all add: FromWebContents_def window_id_def get_tab_strip_index_def
      split: option.splits)

lemma GetTabStripIndex_record_index:
  assumes "this \<notin> set (TabContentsIterator w)"
  shows "GetTabStripIndex (w\<lparr>helpers := (helpers w)(this \<mapsto> h')\<rparr>) wid i = GetTabStripIndex w wid i"
proof -
  have it: "TabContentsIterator (w\<lparr>helpers := (helpers w)(this \<mapsto> h')\<rparr>) = TabContentsIterator w"
    by (simp add: TabContentsIterator_def)
  have "\<forall>c \<in> set (TabContentsIterator w).
      helpers (w\<lparr>helpers := (helpers w)(this \<mapsto> h')\<rparr>) c = helpers w c"
    using assms by auto
  then show ?thesis
    unfolding GetTabStripIndex_def it
    by (rule GetTabStripIndex_from_cong) simp_all
qed

lemma AttachGuest_no_window:
  assumes "helpers w this = Some h" and "\<not> attached (guests w this)"
    and "\<forall>b \<in> set (browser_list w). session_id (browsers w b) \<noteq> wid"
  shows "AttachGuest w this wid i = Inr (False, w)"
proof -
  from assms(3) have "find (\<lambda>b. session_id (browsers w b) = wid) (browser_list w) = None"
    by (simp add: find_None_iff)
  with assms(1,2) show ?thesis
    by (simp add: AttachGuest_def AttachGuest_from_find)
qed

lemma AttachGuest_replaces:
  assumes h: "helpers w this = Some h" and na: "\<not> attached (guests w this)"
    and b: "find (\<lambda>b. session_id (browsers w b) = wid) (browser_list w) = Some b"
    and ns: "this \<notin> set (TabContentsIterator w)"
    and occ: "find (is_occupant w wid i) (TabContentsIterator w) = Some occ"
    and ho: "helpers w occ = Some ho" and hb: "m_browser ho = Some b"
    and os: "occ \<in> set (tab_strip (browsers w b))"
  shows "AttachGuest w this wid i =
     Inr (True,
          w\<lparr>helpers := (helpers w)(this \<mapsto> h\<lparr>m_index := i\<rparr>),
            browsers := (browsers w)
              (b := (browsers w b)
                 \<lparr>tab_strip := (tab_strip (browsers w b))
                    [nat (GetIndexOfWebContents (tab_strip (browsers w b)) occ) := this]\<rparr>),
            trace := trace w @
              [StripReplaced b (GetIndexOfWebContents (tab_strip (browsers w b)) occ) occ this]\<rparr>)"
proof -
  let ?k = "GetIndexOfWebContents (tab_strip (browsers w b)) occ"
  have k: "GetTabStripIndex (w\<lparr>helpers := (helpers w)(this \<mapsto> h\<lparr>m_index := i\<rparr>)\<rparr>) wid i = ?k"
    unfolding GetTabStripIndex_record_index [OF ns]
    by (simp add: GetTabStripIndex_def GetTabStripIndex_from_find occ ho hb
        get_tab_strip_index_def)
  note m = GetIndexOfWebContents_member [OF os]
  from m have c: "ContainsIndex (tab_strip (browsers w b)) ?k"
    by (simp add: ContainsIndex_def)
  show ?thesis
    using h na m
    by (simp add: AttachGuest_def AttachGuest_from_find b k ReplaceWebContentsAt_def c emit_def
        Let_def)
qed

lemma attach_world_facts:
  "helpers attach_world 30 = Some NewTabHelper"
  "\<not> attached (guests attach_world 30)"
  "browser_list attach_world = [1]"
  "session_id (browsers attach_world 1) = 1"
  "tab_strip (browsers attach_world 1) = [10]"
  "helpers attach_world 10 = Some transient_placeholder"
  "session_window attach_world 10 = 1"
  by (simp_all add: attach_world_def move_world_def empty_world_def idle_guest_def)

lemma attach_world_iterator: "TabContentsIterator attach_world = [10]"
  by (simp add: TabContentsIterator_def attach_world_facts [unfolded One_nat_def])

lemma attach_world_window:
  "find (\<lambda>b. session_id (browsers attach_world b) = 1) (browser_list attach_world) = Some 1"
  by (simp add: attach_world_facts [unfolded One_nat_def])

lemma attach_world_no_occupant:
  "GetTabStripIndex (attach_world\<lparr>helpers := (helpers attach_world)(30 \<mapsto> h')\<rparr>) 1 7 = kNoTab"
proof -
  have "30 \<notin> set (TabContentsIterator attach_world)"
    by (simp add: attach_world_iterator)
  then have "GetTabStripIndex (attach_world\<lparr>helpers := (helpers attach_world)(30 \<mapsto> h')\<rparr>) 1 7 =
      GetTabStripIndex attach_world 1 7"
    by (rule GetTabStripIndex_record_index)
  also have "\<dots> = kNoTab"
    by (simp add: GetTabStripIndex_def attach_world_iterator FromWebContents_def
        attach_world_facts transient_placeholder_def)
  finally show ?thesis .
qed

text \<open>
  C7, as stated, fails when the window exists but the slot has no occupant. Window 1 is
  in the registry and surface 30 is not attached; no record has the index 7, so
  \<open>GetTabStripIndex\<close> yields \<open>kNoTab\<close>, the strip refuses the position, and \<open>AttachGuest\<close>
  does not return true.
\<close>

theorem AttachGuest_no_occupant_counterexample:
  "helpers attach_world 30 = Some NewTabHelper \<and> \<not> attached (guests attach_world 30) \<and>
   find (\<lambda>b. session_id (browsers attach_world b) = 1) (browser_list attach_world) = Some 1 \<and>
   AttachGuest attach_world 30 1 7 = Inl StripIndexOutOfRange \<and>
   returned (AttachGuest attach_world 30 1 7) \<noteq> Some True"
proof -
  have r: "AttachGuest attach_world 30 1 7 = Inl StripIndexOutOfRange"
    by (simp add: AttachGuest_def attach_world_facts(1,2) AttachGuest_from_find
        attach_world_window attach_world_no_occupant ReplaceWebContentsAt_def
        ContainsIndex_def kNoTab_def)
  then have "returned (AttachGuest attach_world 30 1 7) \<noteq> Some True"
    by (simp add: returned_def)
  with r attach_world_facts(1,2) attach_world_window show ?thesis
    by blast
qed

text \<open>
  C7, amended. Let the surface not be attached. If no window of the registry has the id,
  \<open>AttachGuest\<close> returns false and the world is unchanged. If a window has the id (the first
  such window \<open>b\<close> of the list is taken), the surface is in no strip yet, and the slot has an
  occupant (the first surface whose record has the index and whose session window is the
  id) that is in the strip of \<open>b\<close> and bookkept under \<open>b\<close>, then \<open>AttachGuest\<close> returns true,
  the strip of \<open>b\<close> holds this surface where the occupant was, the record has the index,
  and no other window changes.
\<close>

theorem AttachGuest_window_lookup:
  assumes "helpers w this = Some h" and "\<not> attached (guests w this)"
  shows "((\<forall>b \<in> set (browser_list w). session_id (browsers w b) \<noteq> wid) \<longrightarrow>
            AttachGuest w this wid i = Inr (False, w)) \<and>
         (\<forall>b occ ho.
            find (\<lambda>b. session_id (browsers w b) = wid) (browser_list w) = Some b \<and>
            this \<notin> set (TabContentsIterator w) \<and>
            find (is_occupant w wid i) (TabContentsIterator w) = Some occ \<and>
            helpers w occ = Some ho \<and> m_browser ho = Some b \<and>
            occ \<in> set (tab_strip (browsers w b)) \<longrightarrow>
            (\<exists>w'. AttachGuest w this wid i = Inr (True, w') \<and>
               session_id (browsers w' b) = wid \<and>
               tab_strip (browsers w b) !
                 nat (GetIndexOfWebContents (tab_strip (browsers w b)) occ) = occ \<and>
               tab_strip (browsers w' b) =
                 (tab_strip (browsers w b))
                   [nat (GetIndexOfWebContents (tab_strip (browsers w b)) occ) := this] \<and>
               map_option m_index (helpers w' this) = Some i \<and>
               (\<forall>b'. b' \<noteq> b \<longrightarrow> browsers w' b' = browsers w b')))"
proof (intro conjI allI impI)
  assume "\<forall>b \<in> set (browser_list w). session_id (browsers w b) \<noteq> wid"
  with assms show "AttachGuest w this wid i = Inr (False, w)"
    by (rule AttachGuest_no_window)
next
  fix b occ ho
  assume a: "find (\<lambda>b. session_id (browsers w b) = wid) (browser_list w) = Some b \<and>
            this \<notin> set (TabContentsIterator w) \<and>
            find (is_occupant w wid i) (TabContentsIterator w) = Some occ \<and>
            helpers w occ = Some ho \<and> m_browser ho = Some b \<and>
            occ \<in> set (tab_strip (browsers w b))"
  then have sid: "session_id (browsers w b) = wid"
    by (auto simp: find_Some_iff)
  from a have os: "occ \<in> set (tab_strip (browsers w b))" by simp
  from a have r: "AttachGuest w this wid i =
     Inr (True,
          w\<lparr>helpers := (helpers w)(this \<mapsto> h\<lparr>m_index := i\<rparr>),
            browsers := (browsers w)
              (b := (browsers w b)
                 \<lparr>tab_strip := (tab_strip (browsers w b))
                    [nat (GetIndexOfWebContents (tab_strip (browsers w b)) occ) := this]\<rparr>),
            trace := trace w @
              [StripReplaced b (GetIndexOfWebContents (tab_strip (browsers w b)) occ) occ this]\<rparr>)"
    by (intro AttachGuest_replaces [OF assms, where ho = ho]) blast+
  show "\<exists>w'. AttachGuest w this wid i = Inr (True, w') \<and>
               session_id (browsers w' b) = wid \<and>
               tab_strip (browsers w b) !
                 nat (GetIndexOfWebContents (tab_strip (browsers w b)) occ) = occ \<and>
               tab_strip (browsers w' b) =
                 (tab_strip (browsers w b))
                   [nat (GetIndexOfWebContents (tab_strip (browsers w b)) occ) := this] \<and>
               map_option m_index (helpers w' this) = Some i \<and>
               (\<forall>b'. b' \<noteq> b \<longrightarrow> browsers w' b' = browsers w b')"
    unfolding r using sid GetIndexOfWebContents_member [OF os] by simp
qed

lemma attach_world_occupant: "is_occupant attach_world 1 0 10"
  by (simp add: is_occupant_def FromWebContents_def window_id_def attach_world_facts
      transient_placeholder_def)

theorem AttachGuest_window_lookup_witness:
  "helpers attach_world 30 = Some NewTabHelper \<and> \<not> attached (guests attach_world 30) \<and>
   AttachGuest attach_world 30 99 0 = Inr (False, attach_world) \<and>
   find (\<lambda>b. session_id (browsers attach_world b) = 1) (browser_list attach_world) = Some 1 \<and>
   30 \<notin> set (TabContentsIterator attach_world) \<and>
   find (is_occupant attach_world 1 0) (TabContentsIterator attach_world) = Some 10 \<and>
   helpers attach_world 10 = Some transient_placeholder \<and>
   m_browser transient_placeholder = Some 1 \<and>
   10 \<in> set (tab_strip (browsers attach_world 1)) \<and>
   returned (AttachGuest attach_world 30 1 0) = Some True \<and>
   strip_after (AttachGuest attach_world 30 1 0) 1 = Some [30] \<and>
   index_after (map_sum id snd (AttachGuest attach_world 30 1 0)) 30 = Some 0"
proof -
  note T = AttachGuest_window_lookup [OF attach_world_facts(1,2)]
  have nw: "\<forall>b \<in> set (browser_list attach_world). session_id (browsers attach_world b) \<noteq> 99"
    by (simp add: attach_world_facts [unfolded One_nat_def])
  from T [of 99 0] nw have a: "AttachGuest attach_world 30 99 0 = Inr (False, attach_world)"
    by blast
  have f: "find (\<lambda>b. session_id (browsers attach_world b) = 1) (browser_list attach_world) = Some 1"
    by (simp add: attach_world_facts [unfolded One_nat_def])
  have n: "30 \<notin> set (TabContentsIterator attach_world)"
    by (simp add: attach_world_iterator)
  have o: "find (is_occupant attach_world 1 0) (TabContentsIterator attach_world) = Some 10"
    by (simp add: attach_world_iterator attach_world_occupant)
  have b: "m_browser transient_placeholder = Some 1"
    by (simp add: transient_placeholder_def)
  have s: "10 \<in> set (tab_strip (browsers attach_world 1))"
    by (simp add: attach_world_facts [unfolded One_nat_def])
  from T [of 1 0] f n o attach_world_facts(6) b s
  obtain w' where r: "AttachGuest attach_world 30 1 0 = Inr (True, w')"
    and st: "tab_strip (browsers w' 1) =
      (tab_strip (browsers attach_world 1))
        [nat (GetIndexOfWebContents (tab_strip (browsers attach_world 1)) 10) := 30]"
    and ix: "map_option m_index (helpers w' 30) = Some 0"
    by blast
  have c: "returned (AttachGuest attach_world 30 1 0) = Some True"
    by (simp add: r returned_def)
  have d: "strip_after (AttachGuest attach_world 30 1 0) 1 = Some [30]"
    unfolding r strip_after_def
    by (simp add: st [unfolded One_nat_def] attach_world_facts [unfolded One_nat_def])
  have e: "index_after (map_sum id snd (AttachGuest attach_world 30 1 0)) 30 = Some 0"
    unfolding r index_after_def by (simp add: ix)
  from a f n o b s c d e attach_world_facts(1,2,6) show ?thesis
    by blast
qed

subsection \<open>Detaching\<close>








end
